theory Spec2Isabelle
  imports Main
begin

section \<open>Data model\<close>

text \<open>
  The credential and session core of the application: \<open>server/utils/customAuth.ts\<close>,
  \<open>server/utils/requireAuth.ts\<close> and the four request handlers under
  \<open>server/api/auth/\<close> (sign-up, sign-in, sign-out, get-session).

  Strings are \<open>string\<close>; a nullable column is a \<open>string option\<close> (\<open>None\<close> for
  \<open>null\<close>). Instants are \<open>int\<close>, the millisecond value of a JavaScript \<open>Date\<close>.
\<close>

subsection \<open>JavaScript values\<close>

text \<open>
  The values of request bodies and of responses. Arrays and fractional numbers are left
  out: where a handler below meets one, it treats it as it treats an object or a non-zero
  integer.
\<close>

datatype json =
    JNull
  | JBool bool
  | JNum int
  | JStr string
  | JDate int
  | JObj "(string \<times> json) list"

text \<open>Does the key occur as a field name anywhere inside the value?\<close>

fun has_key :: "string \<Rightarrow> json \<Rightarrow> bool" where
  "has_key k (JObj kvs) = (\<exists>kv \<in> set kvs. fst kv = k \<or> has_key k (snd kv))"
| "has_key k _ = False"

definition opt_str :: "string option \<Rightarrow> json" where
  "opt_str x = (case x of None \<Rightarrow> JNull | Some s \<Rightarrow> JStr s)"

text \<open>JavaScript truthiness of a possibly missing string: \<open>!x\<close>.\<close>

definition falsy :: "string option \<Rightarrow> bool" where
  "falsy x = (case x of None \<Rightarrow> True | Some s \<Rightarrow> s = [])"

text \<open>JavaScript truthiness of a value, and \<open>typeof\<close>.\<close>

fun truthy :: "json \<Rightarrow> bool" where
  "truthy JNull = False"
| "truthy (JBool b) = b"
| "truthy (JNum n) = (n \<noteq> 0)"
| "truthy (JStr s) = (s \<noteq> [])"
| "truthy (JDate t) = True"
| "truthy (JObj kvs) = True"

fun js_typeof :: "json \<Rightarrow> string" where
  "js_typeof (JBool b) = ''boolean''"
| "js_typeof (JNum n) = ''number''"
| "js_typeof (JStr s) = ''string''"
| "js_typeof v = ''object''"

text \<open>
  Reading a property off a value that is neither \<open>undefined\<close> nor \<open>null\<close>: a field of an
  object (of a parsed JSON object with a repeated key, the last one), \<open>undefined\<close> on
  anything else for the names used here.
\<close>

fun property :: "json \<Rightarrow> string \<Rightarrow> json option" where
  "property (JObj kvs) k = map_of (rev kvs) k"
| "property v k = None"

subsection \<open>Rows of the two tables\<close>

record user_row =
  u_id :: string
  u_email :: string
  u_name :: "string option"
  u_image :: "string option"
  u_passwordHash :: "string option"
  u_tenantId :: "string option"
  u_onboardingCompleted :: bool
  u_emailVerified :: bool
  u_createdAt :: int
  u_updatedAt :: int

record session_row =
  s_id :: string
  s_sessionToken :: string
  s_userId :: string
  s_expires :: int

text \<open>A user row as the object Prisma hands out when nothing is selected away.\<close>

definition user_object :: "user_row \<Rightarrow> (string \<times> json) list" where
  "user_object u =
     [(''id'', JStr (u_id u)),
      (''email'', JStr (u_email u)),
      (''name'', opt_str (u_name u)),
      (''image'', opt_str (u_image u)),
      (''passwordHash'', opt_str (u_passwordHash u)),
      (''tenantId'', opt_str (u_tenantId u)),
      (''onboardingCompleted'', JBool (u_onboardingCompleted u)),
      (''emailVerified'', JBool (u_emailVerified u)),
      (''createdAt'', JDate (u_createdAt u)),
      (''updatedAt'', JDate (u_updatedAt u))]"

text \<open>Prisma's \<open>select: { k: true, ... }\<close>: only the listed fields are returned.\<close>

definition select_fields :: "string list \<Rightarrow> (string \<times> json) list \<Rightarrow> (string \<times> json) list" where
  "select_fields ks obj = filter (\<lambda>kv. fst kv \<in> set ks) obj"

text \<open>Rest destructuring \<open>const { k: _, ...rest } = obj\<close>.\<close>

definition omit_field :: "string \<Rightarrow> (string \<times> json) list \<Rightarrow> (string \<times> json) list" where
  "omit_field k obj = filter (\<lambda>kv. fst kv \<noteq> k) obj"

text \<open>The result of \<open>session.findUnique\<close> with \<open>include: { user: { select: ... } }\<close>.\<close>

record session_with_user =
  sw_session :: session_row
  sw_user :: "json option"

subsection \<open>Errors\<close>

text \<open>
  \<open>H3Error\<close> is what \<open>createError({ statusCode, message })\<close> builds; \<open>Error\<close> is any
  other thrown JavaScript error (it has a message and no \<open>statusCode\<close>).
\<close>

datatype error = H3Error nat string | Error string

fun message :: "error \<Rightarrow> string" where
  "message (H3Error n m) = m"
| "message (Error m) = m"

fun statusCode :: "error \<Rightarrow> nat option" where
  "statusCode (H3Error n m) = Some n"
| "statusCode (Error m) = None"

subsection \<open>The world a request runs in\<close>

record set_cookie =
  c_name :: string
  c_value :: string
  c_httpOnly :: bool
  c_secure :: bool
  c_sameSite :: string
  c_maxAge :: int
  c_path :: string

text \<open>
  The mutable world: the two tables, the \<open>Set-Cookie\<close> headers written on the response so
  far, and the fate of the coming store calls. Every Prisma call consumes the head of
  \<open>faults\<close>: \<open>Some msg\<close> makes the call reject with an error of that message (store
  unreachable), \<open>None\<close> or an exhausted list lets it run.
\<close>

record world =
  users :: "user_row list"
  sessions :: "session_row list"
  faults :: "string option list"
  setCookies :: "set_cookie list"

text \<open>
  What a request reads from its surroundings: the clock, the random source, the id
  generator of the store, \<open>NODE_ENV\<close>, and the bcryptjs library (\<open>hash\<close>, \<open>compare\<close>),
  which is not part of the repository and is therefore a parameter. Each handler reads
  each of them at most once. TypeScript's types are gone at run time: \<open>compare\<close> is
  handed whatever value the sign-in request carried as its password, so its first
  argument is any JavaScript value.
\<close>

record env =
  now :: int
  randomBytes32_hex :: string
  cuid :: string
  production :: bool
  bcrypt_hash :: "string \<Rightarrow> nat \<Rightarrow> error + string"
  bcrypt_compare :: "json \<Rightarrow> string \<Rightarrow> error + bool"
  toISOString :: "int \<Rightarrow> string"

subsection \<open>Asynchronous, throwing computations\<close>

type_synonym 'a io = "world \<Rightarrow> (error + 'a) \<times> world"

definition ret :: "'a \<Rightarrow> 'a io" where
  "ret x w = (Inr x, w)"

definition throw_error :: "error \<Rightarrow> 'a io" where
  "throw_error e w = (Inl e, w)"

text \<open>\<open>const x = await m; f x\<close>: a rejection of \<open>m\<close> skips \<open>f\<close>, the effects of \<open>m\<close> stay.\<close>

definition await :: "'a io \<Rightarrow> ('a \<Rightarrow> 'b io) \<Rightarrow> 'b io" where
  "await m f w = (case m w of (Inl e, w') \<Rightarrow> (Inl e, w') | (Inr x, w') \<Rightarrow> f x w')"

text \<open>\<open>try { m } catch (error) { h error }\<close>.\<close>

definition try_catch :: "'a io \<Rightarrow> (error \<Rightarrow> 'a io) \<Rightarrow> 'a io" where
  "try_catch m h w = (case m w of (Inl e, w') \<Rightarrow> h e w' | (Inr x, w') \<Rightarrow> (Inr x, w'))"

text \<open>A pure library call that may throw.\<close>

definition lift :: "error + 'a \<Rightarrow> 'a io" where
  "lift r w = (r, w)"

section \<open>The store (Prisma client)\<close>

definition P2002 :: string where
  "P2002 = ''Unique constraint failed''"

definition P2025 :: string where
  "P2025 = ''Record to delete does not exist.''"

definition prisma_call :: "'a io \<Rightarrow> 'a io" where
  "prisma_call op w =
     (case faults w of
        [] \<Rightarrow> op w
      | None # fs \<Rightarrow> op (w\<lparr>faults := fs\<rparr>)
      | Some msg # fs \<Rightarrow> (Inl (Error msg), w\<lparr>faults := fs\<rparr>))"

definition prisma_user_findUnique :: "string \<Rightarrow> user_row option io" where
  "prisma_user_findUnique email =
     prisma_call (\<lambda>w. (Inr (find (\<lambda>u. u_email u = email) (users w)), w))"

text \<open>
  The same call with whatever value the request carried as its e-mail: the client
  validates the query before it runs it, and rejects a \<open>where\<close> whose \<open>email\<close> is not a
  string without going to the database.
\<close>

definition PrismaClientValidationError :: string where
  "PrismaClientValidationError = ''Invalid value provided. Expected String''"

definition prisma_user_findUnique_where :: "json \<Rightarrow> user_row option io" where
  "prisma_user_findUnique_where email =
     (case email of
        JStr s \<Rightarrow> prisma_user_findUnique s
      | _ \<Rightarrow> throw_error (Error PrismaClientValidationError))"

text \<open>\<open>id\<close> is the primary key and \<open>email\<close> is unique.\<close>

definition prisma_user_create :: "user_row \<Rightarrow> user_row io" where
  "prisma_user_create u =
     prisma_call (\<lambda>w.
       if \<exists>x \<in> set (users w). u_id x = u_id u \<or> u_email x = u_email u
       then (Inl (Error P2002), w)
       else (Inr u, w\<lparr>users := users w @ [u]\<rparr>))"

text \<open>\<open>id\<close> is the primary key and \<open>sessionToken\<close> is unique.\<close>

definition prisma_session_create :: "session_row \<Rightarrow> session_row io" where
  "prisma_session_create r =
     prisma_call (\<lambda>w.
       if \<exists>x \<in> set (sessions w). s_id x = s_id r \<or> s_sessionToken x = s_sessionToken r
       then (Inl (Error P2002), w)
       else (Inr r, w\<lparr>sessions := sessions w @ [r]\<rparr>))"

definition safe_user_fields :: "string list" where
  "safe_user_fields =
     [''id'', ''email'', ''name'', ''image'', ''tenantId'', ''onboardingCompleted'', ''emailVerified'']"

definition include_user :: "world \<Rightarrow> session_row \<Rightarrow> session_with_user" where
  "include_user w r =
     \<lparr>sw_session = r,
      sw_user = map_option (\<lambda>u. JObj (select_fields safe_user_fields (user_object u)))
                  (find (\<lambda>u. u_id u = s_userId r) (users w))\<rparr>"

definition prisma_session_findUnique :: "string \<Rightarrow> session_with_user option io" where
  "prisma_session_findUnique sessionToken =
     prisma_call (\<lambda>w.
       (Inr (map_option (include_user w)
               (find (\<lambda>r. s_sessionToken r = sessionToken) (sessions w))), w))"

text \<open>\<open>delete\<close> rejects when no row matches; \<open>deleteMany\<close> returns the count.\<close>

definition prisma_session_delete :: "string \<Rightarrow> unit io" where
  "prisma_session_delete i =
     prisma_call (\<lambda>w.
       if \<exists>x \<in> set (sessions w). s_id x = i
       then (Inr (), w\<lparr>sessions := filter (\<lambda>x. s_id x \<noteq> i) (sessions w)\<rparr>)
       else (Inl (Error P2025), w))"

definition prisma_session_deleteMany :: "(session_row \<Rightarrow> bool) \<Rightarrow> nat io" where
  "prisma_session_deleteMany p =
     prisma_call (\<lambda>w.
       (Inr (length (filter p (sessions w))),
        w\<lparr>sessions := filter (\<lambda>x. \<not> p x) (sessions w)\<rparr>))"

section \<open>\<open>server/utils/customAuth.ts\<close>\<close>

definition SESSION_MAX_AGE :: int where
  "SESSION_MAX_AGE = 30 * 24 * 60 * 60"

definition hashPassword :: "env \<Rightarrow> string \<Rightarrow> string io" where
  "hashPassword e password = lift (bcrypt_hash e password 10)"

definition verifyPassword :: "env \<Rightarrow> json \<Rightarrow> string \<Rightarrow> bool io" where
  "verifyPassword e password h = lift (bcrypt_compare e password h)"

definition generateSessionToken :: "env \<Rightarrow> string" where
  "generateSessionToken e = randomBytes32_hex e"

definition createSession :: "env \<Rightarrow> string \<Rightarrow> (string \<times> int) io" where
  "createSession e userId =
     (let sessionToken = generateSessionToken e;
          expires = now e + SESSION_MAX_AGE * 1000
      in await (prisma_session_create
                  \<lparr>s_id = cuid e, s_sessionToken = sessionToken,
                   s_userId = userId, s_expires = expires\<rparr>)
           (\<lambda>_. ret (sessionToken, expires)))"

definition getSession :: "env \<Rightarrow> string \<Rightarrow> session_with_user option io" where
  "getSession e sessionToken =
     await (prisma_session_findUnique sessionToken) (\<lambda>session.
       case session of
         None \<Rightarrow> ret None
       | Some s \<Rightarrow>
           if s_expires (sw_session s) < now e
           then await (prisma_session_delete (s_id (sw_session s))) (\<lambda>_. ret None)
           else ret (Some s))"

definition deleteSession :: "string \<Rightarrow> unit io" where
  "deleteSession sessionToken =
     await (prisma_session_deleteMany (\<lambda>r. s_sessionToken r = sessionToken)) (\<lambda>_. ret ())"

definition deleteUserSessions :: "string \<Rightarrow> unit io" where
  "deleteUserSessions userId =
     await (prisma_session_deleteMany (\<lambda>r. s_userId r = userId)) (\<lambda>_. ret ())"

definition cleanupExpiredSessions :: "env \<Rightarrow> nat io" where
  "cleanupExpiredSessions e =
     await (prisma_session_deleteMany (\<lambda>r. s_expires r < now e)) (\<lambda>n. ret n)"

section \<open>Request handlers\<close>

text \<open>
  The body of a sign-up request, with each field a string or absent. Sign-up hands its
  fields to \<open>RegExp.test\<close>, \<open>.length\<close>, bcrypt's \<open>hash\<close> and the Prisma client; what
  these do with a value that is not a string is not modelled, so sign-up is modelled on
  string fields. Sign-in, which only tests its fields for truthiness, is modelled on any
  body.
\<close>

record body =
  b_email :: "string option"
  b_password :: "string option"
  b_name :: "string option"

text \<open>\<open>setCookie(event, name, value, options)\<close> adds a \<open>Set-Cookie\<close> header.\<close>

definition setCookie :: "set_cookie \<Rightarrow> unit io" where
  "setCookie c w = (Inr (), w\<lparr>setCookies := setCookies w @ [c]\<rparr>)"

subsection \<open>The e-mail pattern of sign-up\<close>

text \<open>
  The class \<open>\s\<close> of a JavaScript regular expression, on the code units below 256:
  tab, line feed, vertical tab, form feed, carriage return, space, no-break space.
\<close>

definition is_space :: "char \<Rightarrow> bool" where
  "is_space c = (c \<in> set [CHR 0x09, CHR 0x0A, CHR 0x0B, CHR 0x0C, CHR 0x0D, CHR 0x20, CHR 0xA0])"

text \<open>The class \<open>[^\s@]\<close>.\<close>

definition plain :: "char \<Rightarrow> bool" where
  "plain c = (\<not> is_space c \<and> c \<noteq> CHR ''@'')"

text \<open>
  \<open>/^[^\s@]+@[^\s@]+\.[^\s@]+$/.test(s)\<close>. The first group can only end at the first
  character outside the class, which must be the \<open>@\<close>; what follows must stay in the
  class and hold a dot that is neither its first nor its last character.
\<close>

definition emailRegex_test :: "string \<Rightarrow> bool" where
  "emailRegex_test s =
     (takeWhile plain s \<noteq> [] \<and>
      (case dropWhile plain s of
         [] \<Rightarrow> False
       | c # d \<Rightarrow> c = CHR ''@'' \<and> list_all plain d \<and>
                  d \<noteq> [] \<and> CHR ''.'' \<in> set (butlast (tl d))))"

subsection \<open>\<open>server/api/auth/signup.ts\<close>\<close>

definition signup :: "env \<Rightarrow> body \<Rightarrow> json io" where
  "signup e b =
     try_catch
       (case (b_email b, b_password b) of
          (Some email, Some password) \<Rightarrow>
            if email = [] \<or> password = []
            then throw_error (H3Error 400 ''Email and password are required'')
            else if \<not> emailRegex_test email
            then throw_error (H3Error 400 ''Invalid email format'')
            else if length password < 8
            then throw_error (H3Error 400 ''Password must be at least 8 characters long'')
            else
              await (prisma_user_findUnique email) (\<lambda>existingUser.
                if existingUser \<noteq> None
                then throw_error (H3Error 400 ''User with this email already exists'')
                else
                  await (hashPassword e password) (\<lambda>passwordHash.
                  await (prisma_user_create
                           \<lparr>u_id = cuid e,
                            u_email = email,
                            u_name = (if falsy (b_name b) then None else b_name b),
                            u_image = None,
                            u_passwordHash = Some passwordHash,
                            u_tenantId = None,
                            u_onboardingCompleted = False,
                            u_emailVerified = False,
                            u_createdAt = now e,
                            u_updatedAt = now e\<rparr>) (\<lambda>user.
                  ret (JObj
                    [(''success'', JBool True),
                     (''user'', JObj (select_fields
                        [''id'', ''email'', ''name'', ''emailVerified'',
                         ''onboardingCompleted'', ''createdAt'']
                        (user_object user)))]))))
        | _ \<Rightarrow> throw_error (H3Error 400 ''Email and password are required''))
       (\<lambda>error.
          if (case statusCode error of Some n \<Rightarrow> n \<noteq> 0 | None \<Rightarrow> False)
          then throw_error error
          else throw_error (H3Error 500
                 (if message error = [] then ''Failed to create user'' else message error)))"

subsection \<open>\<open>server/api/auth/signin.ts\<close>\<close>

text \<open>
  The argument is what \<open>readBody\<close> returned: \<open>None\<close> for \<open>undefined\<close> (no body), else
  the parsed value. The handler checks its two fields for truthiness only, so a field can
  be any value. Destructuring \<open>undefined\<close> or \<open>null\<close> throws a \<open>TypeError\<close>.
\<close>

definition TypeError_destructure :: "string \<Rightarrow> string" where
  "TypeError_destructure what =
     ''Cannot destructure property 'email' of 'body' as it is '' @ what @ ''.''"

definition signin :: "env \<Rightarrow> json option \<Rightarrow> json io" where
  "signin e body =
     try_catch
       (case body of
          None \<Rightarrow> throw_error (Error (TypeError_destructure ''undefined''))
        | Some JNull \<Rightarrow> throw_error (Error (TypeError_destructure ''null''))
        | Some b \<Rightarrow>
       (case (property b ''email'', property b ''password'') of
          (Some email, Some password) \<Rightarrow>
            if \<not> truthy email \<or> \<not> truthy password
            then throw_error (H3Error 400 ''Email and password are required'')
            else
              await (prisma_user_findUnique_where email) (\<lambda>found.
                case found of
                  None \<Rightarrow> throw_error (H3Error 401 ''Invalid email or password'')
                | Some user \<Rightarrow>
                    (case u_passwordHash user of
                       None \<Rightarrow> throw_error (H3Error 401 ''Invalid email or password'')
                     | Some passwordHash \<Rightarrow>
                         if passwordHash = []
                         then throw_error (H3Error 401 ''Invalid email or password'')
                         else
                           await (verifyPassword e password passwordHash) (\<lambda>isValidPassword.
                             if \<not> isValidPassword
                             then throw_error (H3Error 401 ''Invalid email or password'')
                             else
                               await (createSession e (u_id user)) (\<lambda>(sessionToken, expires).
                               await (setCookie
                                        \<lparr>c_name = ''auth.session_token'',
                                         c_value = sessionToken,
                                         c_httpOnly = True,
                                         c_secure = production e,
                                         c_sameSite = ''lax'',
                                         c_maxAge = 30 * 24 * 60 * 60,
                                         c_path = ''/''\<rparr>) (\<lambda>_.
                               ret (JObj
                                 [(''success'', JBool True),
                                  (''session'', JObj
                                     [(''sessionToken'', JStr sessionToken),
                                      (''expires'', JStr (toISOString e expires))]),
                                  (''user'', JObj (omit_field ''passwordHash''
                                     (select_fields
                                        [''id'', ''email'', ''name'', ''image'', ''passwordHash'',
                                         ''tenantId'', ''onboardingCompleted'', ''emailVerified'']
                                        (user_object user))))]))))))
        | _ \<Rightarrow> throw_error (H3Error 400 ''Email and password are required'')))
       (\<lambda>error.
          if (case statusCode error of Some n \<Rightarrow> n \<noteq> 0 | None \<Rightarrow> False)
          then throw_error error
          else throw_error (H3Error 500
                 (if message error = [] then ''Failed to sign in'' else message error)))"

subsection \<open>\<open>server/api/auth/signout.ts\<close>\<close>

text \<open>The argument is the value of the request cookie \<open>auth.session_token\<close>, if any.\<close>

definition signout :: "env \<Rightarrow> string option \<Rightarrow> json io" where
  "signout e sessionToken =
     try_catch
       (await (case sessionToken of
                 None \<Rightarrow> ret ()
               | Some t \<Rightarrow> if t = [] then ret () else deleteSession t) (\<lambda>_.
        await (setCookie
                 \<lparr>c_name = ''auth.session_token'',
                  c_value = [],
                  c_httpOnly = True,
                  c_secure = production e,
                  c_sameSite = ''lax'',
                  c_maxAge = 0,
                  c_path = ''/''\<rparr>) (\<lambda>_.
        ret (JObj [(''success'', JBool True),
                   (''message'', JStr ''Signed out successfully'')]))))
       (\<lambda>error.
          await (setCookie
                   \<lparr>c_name = ''auth.session_token'',
                    c_value = [],
                    c_httpOnly = True,
                    c_secure = production e,
                    c_sameSite = ''lax'',
                    c_maxAge = 0,
                    c_path = ''/''\<rparr>) (\<lambda>_.
          throw_error (H3Error 500
            (if message error = [] then ''Failed to sign out'' else message error))))"

subsection \<open>\<open>server/api/auth/get-session.ts\<close>\<close>

definition get_session :: "env \<Rightarrow> string option \<Rightarrow> json io" where
  "get_session e sessionToken =
     try_catch
       (case sessionToken of
          None \<Rightarrow> ret (JObj [(''session'', JNull), (''user'', JNull)])
        | Some t \<Rightarrow>
            if t = []
            then ret (JObj [(''session'', JNull), (''user'', JNull)])
            else
              await (getSession e t) (\<lambda>session.
                case session of
                  None \<Rightarrow>
                    await (setCookie
                             \<lparr>c_name = ''auth.session_token'',
                              c_value = [],
                              c_httpOnly = True,
                              c_secure = production e,
                              c_sameSite = ''lax'',
                              c_maxAge = 0,
                              c_path = ''/''\<rparr>) (\<lambda>_.
                    ret (JObj [(''session'', JNull), (''user'', JNull)]))
                | Some s \<Rightarrow>
                    ret (JObj
                      [(''session'', JObj
                          [(''id'', JStr (s_id (sw_session s))),
                           (''sessionToken'', JStr (s_sessionToken (sw_session s))),
                           (''expires'', JStr (toISOString e (s_expires (sw_session s))))]),
                       (''user'', (case sw_user s of None \<Rightarrow> JNull | Some u \<Rightarrow> u))])))
       (\<lambda>error.
          throw_error (H3Error 500
            (if message error = [] then ''Failed to get session'' else message error)))"

section \<open>\<open>server/utils/requireAuth.ts\<close>\<close>

definition requireAuth :: "env \<Rightarrow> string option \<Rightarrow> json io" where
  "requireAuth e sessionToken =
     (case sessionToken of
        None \<Rightarrow> throw_error (H3Error 401 ''Unauthorized - No session token'')
      | Some t \<Rightarrow>
          if t = []
          then throw_error (H3Error 401 ''Unauthorized - No session token'')
          else
            await (getSession e t) (\<lambda>session.
              let reject =
                await (setCookie
                         \<lparr>c_name = ''auth.session_token'',
                          c_value = [],
                          c_httpOnly = True,
                          c_secure = production e,
                          c_sameSite = ''lax'',
                          c_maxAge = 0,
                          c_path = ''/''\<rparr>) (\<lambda>_.
                throw_error (H3Error 401 ''Unauthorized - Invalid or expired session''))
              in
                case session of
                  None \<Rightarrow> reject
                | Some s \<Rightarrow>
                    (case sw_user s of
                       None \<Rightarrow> reject
                     | Some u \<Rightarrow>
                         ret (JObj
                           [(''session'', JObj
                               [(''id'', JStr (s_id (sw_session s))),
                                (''sessionToken'', JStr (s_sessionToken (sw_session s))),
                                (''expires'', JDate (s_expires (sw_session s)))]),
                            (''user'', u)]))))"

text \<open>\<open>try { return await requireAuth(event) } catch { return null }\<close>.\<close>

definition getOptionalAuth :: "env \<Rightarrow> string option \<Rightarrow> json option io" where
  "getOptionalAuth e sessionToken =
     try_catch
       (await (requireAuth e sessionToken) (\<lambda>r. ret (Some r)))
       (\<lambda>_. ret None)"

section \<open>Vocabulary of the properties\<close>

text \<open>
  The status a caller sees: h3 answers with the \<open>statusCode\<close> of a thrown
  \<open>createError\<close>, with 500 for any other thrown error, and with 200 for a returned value.
\<close>

definition http_status :: "error + 'a \<Rightarrow> nat" where
  "http_status r =
     (case r of
        Inr x \<Rightarrow> 200
      | Inl (H3Error n m) \<Rightarrow> n
      | Inl (Error m) \<Rightarrow> 500)"

text \<open>The fate of the next store call, and the world once it has been made.\<close>

definition next_fault :: "world \<Rightarrow> string option" where
  "next_fault w = (case faults w of Some msg # fs \<Rightarrow> Some msg | _ \<Rightarrow> None)"

definition store_answers :: "world \<Rightarrow> bool" where
  "store_answers w = (next_fault w = None)"

definition after_call :: "world \<Rightarrow> world" where
  "after_call w = w\<lparr>faults := tl (faults w)\<rparr>"

text \<open>The primary key and the unique index of the session table.\<close>

definition unique_sessions :: "world \<Rightarrow> bool" where
  "unique_sessions w =
     (distinct (map s_id (sessions w)) \<and> distinct (map s_sessionToken (sessions w)))"

text \<open>The cookie that clears the session cookie, and the two fixed response bodies.\<close>

definition clear_cookie :: "env \<Rightarrow> set_cookie" where
  "clear_cookie e =
     \<lparr>c_name = ''auth.session_token'', c_value = [], c_httpOnly = True,
      c_secure = production e, c_sameSite = ''lax'', c_maxAge = 0, c_path = ''/''\<rparr>"

definition no_session :: json where
  "no_session = JObj [(''session'', JNull), (''user'', JNull)]"

definition signed_out :: json where
  "signed_out = JObj [(''success'', JBool True), (''message'', JStr ''Signed out successfully'')]"

text \<open>The three ways in which well-formed credentials are turned down.\<close>

definition email_unregistered :: "world \<Rightarrow> string \<Rightarrow> bool" where
  "email_unregistered w email = (find (\<lambda>u. u_email u = email) (users w) = None)"

definition hash_missing :: "world \<Rightarrow> string \<Rightarrow> bool" where
  "hash_missing w email =
     (case find (\<lambda>u. u_email u = email) (users w) of
        None \<Rightarrow> False
      | Some u \<Rightarrow> falsy (u_passwordHash u))"

definition password_mismatch :: "env \<Rightarrow> world \<Rightarrow> string \<Rightarrow> string \<Rightarrow> bool" where
  "password_mismatch e w email password =
     (case find (\<lambda>u. u_email u = email) (users w) of
        None \<Rightarrow> False
      | Some u \<Rightarrow>
          (case u_passwordHash u of
             None \<Rightarrow> False
           | Some h \<Rightarrow> h \<noteq> [] \<and> bcrypt_compare e (JStr password) h = Inr False))"

text \<open>
  A sign-in request whose e-mail and password are non-empty strings, whose lookup the
  store answers, and for which one of the three holds.
\<close>

definition credentials_rejected :: "env \<Rightarrow> json option \<Rightarrow> world \<Rightarrow> bool" where
  "credentials_rejected e body w =
     (case body of
        None \<Rightarrow> False
      | Some b \<Rightarrow>
          (case (property b ''email'', property b ''password'') of
             (Some (JStr email), Some (JStr password)) \<Rightarrow>
               email \<noteq> [] \<and> password \<noteq> [] \<and> store_answers w \<and>
               (email_unregistered w email \<or> hash_missing w email \<or>
                password_mismatch e w email password)
           | _ \<Rightarrow> False))"

section \<open>A concrete world\<close>

text \<open>
  An environment whose clock reads 1000 and whose bcrypt stand-in prefixes the password
  and, like bcryptjs, rejects a password that is not a string with \<open>Illegal arguments\<close>;
  \<open>toISOString\<close> is a stand-in as well. Two users, Alice with a password and Bob without
  one, and two sessions of Alice: one that expires at this very instant and one that
  expired a millisecond ago.
\<close>

definition env0 :: env where
  "env0 =
     \<lparr>now = 1000, randomBytes32_hex = ''t9'', cuid = ''c9'', production = False,
      bcrypt_hash = (\<lambda>p n. Inr (''$2a$10$'' @ p)),
      bcrypt_compare =
        (\<lambda>p h. case p of
                  JStr s \<Rightarrow> Inr (h = ''$2a$10$'' @ s)
                | _ \<Rightarrow> Inl (Error (''Illegal arguments: '' @ js_typeof p @ '', string''))),
      toISOString = (\<lambda>t. ''iso'')\<rparr>"

definition alice :: user_row where
  "alice =
     \<lparr>u_id = ''u1'', u_email = ''real@x.com'', u_name = Some ''Alice'', u_image = None,
      u_passwordHash = Some ''$2a$10$password123'', u_tenantId = None,
      u_onboardingCompleted = False, u_emailVerified = False,
      u_createdAt = 5, u_updatedAt = 5\<rparr>"

definition bob :: user_row where
  "bob =
     \<lparr>u_id = ''u2'', u_email = ''bob@x.com'', u_name = None, u_image = None,
      u_passwordHash = None, u_tenantId = None,
      u_onboardingCompleted = False, u_emailVerified = False,
      u_createdAt = 6, u_updatedAt = 6\<rparr>"

definition session_now :: session_row where
  "session_now =
     \<lparr>s_id = ''s1'', s_sessionToken = ''t1'', s_userId = ''u1'', s_expires = 1000\<rparr>"

definition session_old :: session_row where
  "session_old =
     \<lparr>s_id = ''s2'', s_sessionToken = ''t2'', s_userId = ''u1'', s_expires = 999\<rparr>"

definition w0 :: world where
  "w0 =
     \<lparr>users = [alice, bob], sessions = [session_now, session_old],
      faults = [], setCookies = []\<rparr>"

text \<open>The same world with the store unreachable at the next call.\<close>

definition w_down :: world where
  "w_down = w0\<lparr>faults := [Some ''database unreachable'']\<rparr>"

text \<open>The same world with the store answering one call and failing the next.\<close>

definition w_delete_fails :: world where
  "w_delete_fails = w0\<lparr>faults := [None, Some ''database unreachable'']\<rparr>"

definition request :: "string \<Rightarrow> string \<Rightarrow> body" where
  "request email password =
     \<lparr>b_email = Some email, b_password = Some password, b_name = None\<rparr>"

text \<open>The body \<open>{ "email": ..., "password": ... }\<close> of a sign-in request.\<close>

definition credentials :: "string \<Rightarrow> json \<Rightarrow> json option" where
  "credentials email password = Some (JObj [(''email'', JStr email), (''password'', password)])"

definition alice_safe :: json where
  "alice_safe =
     JObj [(''id'', JStr ''u1''), (''email'', JStr ''real@x.com''), (''name'', JStr ''Alice''),
           (''image'', JNull), (''tenantId'', JNull), (''onboardingCompleted'', JBool False),
           (''emailVerified'', JBool False)]"

definition signup_ok :: json where
  "signup_ok =
     JObj [(''success'', JBool True),
           (''user'', JObj
              [(''id'', JStr ''c9''), (''email'', JStr ''a@b.com''), (''name'', JNull),
               (''onboardingCompleted'', JBool False), (''emailVerified'', JBool False),
               (''createdAt'', JDate 1000)])]"

definition signin_ok :: json where
  "signin_ok =
     JObj [(''success'', JBool True),
           (''session'', JObj [(''sessionToken'', JStr ''t9''), (''expires'', JStr ''iso'')]),
           (''user'', alice_safe)]"

definition session_ok :: json where
  "session_ok =
     JObj [(''session'', JObj [(''id'', JStr ''s1''), (''sessionToken'', JStr ''t1''),
                               (''expires'', JStr ''iso'')]),
           (''user'', alice_safe)]"

definition auth_ok :: json where
  "auth_ok =
     JObj [(''session'', JObj [(''id'', JStr ''s1''), (''sessionToken'', JStr ''t1''),
                               (''expires'', JDate 1000)]),
           (''user'', alice_safe)]"

section \<open>Running the model\<close>

lemmas io_defs =
  ret_def throw_error_def await_def try_catch_def lift_def prisma_call_def setCookie_def

lemmas model_defs =
  io_defs prisma_user_findUnique_def prisma_user_findUnique_where_def
  prisma_user_create_def prisma_session_create_def
  prisma_session_findUnique_def prisma_session_delete_def prisma_session_deleteMany_def
  include_user_def hashPassword_def verifyPassword_def generateSessionToken_def
  createSession_def getSession_def deleteSession_def SESSION_MAX_AGE_def
  select_fields_def omit_field_def user_object_def opt_str_def falsy_def
  safe_user_fields_def Let_def

lemmas example_defs =
  env0_def alice_def bob_def session_now_def session_old_def w0_def w_down_def request_def
  credentials_def

subsection \<open>The e-mail pattern\<close>

text \<open>
  The executable test accepts exactly the strings the regular expression describes: a
  non-empty run of the class, \<open>@\<close>, a non-empty run, a dot, a non-empty run.
\<close>

lemma plain_dot: "plain (CHR ''.'')" "\<not> plain (CHR ''@'')"
  by (simp_all add: plain_def is_space_def)

lemma emailRegex_test_matches:
  assumes "a \<noteq> []" "b \<noteq> []" "c \<noteq> []" "list_all plain a" "list_all plain b" "list_all plain c"
  shows "emailRegex_test (a @ ''@'' @ b @ ''.'' @ c)"
proof -
  from assms(4) have t: "takeWhile plain (a @ ''@'' @ b @ ''.'' @ c) = a"
    by (simp add: list_all_iff plain_dot)
  from assms(4) have d: "dropWhile plain (a @ ''@'' @ b @ ''.'' @ c) = CHR ''@'' # (b @ ''.'' @ c)"
    by (simp add: list_all_iff plain_dot)
  from assms(2) obtain x xs where b: "b = x # xs" by (cases b) auto
  from assms(3) have "butlast (xs @ CHR ''.'' # c) = xs @ CHR ''.'' # butlast c"
    by (simp add: butlast_append)
  with assms t d b show ?thesis
    by (simp add: emailRegex_test_def plain_dot)
qed

lemma emailRegex_test_shape:
  assumes "emailRegex_test s"
  shows "\<exists>a b c. s = a @ ''@'' @ b @ ''.'' @ c \<and> a \<noteq> [] \<and> b \<noteq> [] \<and> c \<noteq> []
           \<and> list_all plain a \<and> list_all plain b \<and> list_all plain c"
proof -
  from assms obtain d where a: "takeWhile plain s \<noteq> []"
    and dw: "dropWhile plain s = CHR ''@'' # d" and pd: "list_all plain d" and dn: "d \<noteq> []"
    and dot: "CHR ''.'' \<in> set (butlast (tl d))"
    by (auto simp add: emailRegex_test_def split: list.splits)
  from dn obtain x t where d: "d = x # t" by (cases d) auto
  with dot have "t \<noteq> []" by auto
  then obtain t' z where t: "t = t' @ [z]" by (cases t rule: rev_cases) auto
  with dot d obtain xs ys where t': "t' = xs @ CHR ''.'' # ys"
    by (auto simp add: in_set_conv_decomp)
  have s: "s = takeWhile plain s @ dropWhile plain s" by simp
  have e: "s = takeWhile plain s @ ''@'' @ (x # xs) @ ''.'' @ (ys @ [z])"
    by (subst s) (simp add: dw d t t')
  from pd have "list_all plain (x # xs)" "list_all plain (ys @ [z])"
    by (simp_all add: d t t')
  moreover have "list_all plain (takeWhile plain s)"
    by (auto simp add: list_all_iff dest: set_takeWhileD)
  ultimately show ?thesis using a e by blast
qed

lemma emailRegex_test_iff:
  "emailRegex_test s \<longleftrightarrow>
     (\<exists>a b c. s = a @ ''@'' @ b @ ''.'' @ c \<and> a \<noteq> [] \<and> b \<noteq> [] \<and> c \<noteq> []
           \<and> list_all plain a \<and> list_all plain b \<and> list_all plain c)"
  using emailRegex_test_matches emailRegex_test_shape by blast

subsection \<open>Store calls\<close>

lemma prisma_user_findUnique_answers:
  "store_answers w \<Longrightarrow>
   prisma_user_findUnique email w
     = (Inr (find (\<lambda>u. u_email u = email) (users w)), after_call w)"
  by (simp add: prisma_user_findUnique_def prisma_call_def store_answers_def next_fault_def
        after_call_def
      split: list.splits option.splits)

lemma prisma_session_deleteMany_run:
  "prisma_session_deleteMany p w =
     (case next_fault w of
        Some msg \<Rightarrow> (Inl (Error msg), after_call w)
      | None \<Rightarrow> (Inr (length (filter p (sessions w))),
                 (after_call w)\<lparr>sessions := filter (\<lambda>x. \<not> p x) (sessions w)\<rparr>))"
  by (simp add: prisma_session_deleteMany_def prisma_call_def next_fault_def after_call_def
      split: list.splits option.splits)

lemma find_email_registered:
  assumes "\<exists>u\<in>set us. u_email u = email"
  shows "\<exists>u. find (\<lambda>u. u_email u = email) us = Some u"
  using assms by (cases "find (\<lambda>u. u_email u = email) us") (auto simp add: find_None_iff)

lemma find_unique_token:
  "distinct (map s_sessionToken rs) \<Longrightarrow> r \<in> set rs \<Longrightarrow>
   find (\<lambda>x. s_sessionToken x = s_sessionToken r) rs = Some r"
  by (induction rs) auto

lemma filter_other_ids:
  "i \<notin> s_id ` set rs \<Longrightarrow> filter (\<lambda>x. s_id x \<noteq> i) rs = rs"
  by (induction rs) auto

lemma filter_unique_id:
  "distinct (map s_id rs) \<Longrightarrow> r \<in> set rs \<Longrightarrow>
   filter (\<lambda>x. s_id x \<noteq> s_id r) rs = remove1 r rs"
proof (induction rs)
  case Nil
  then show ?case by simp
next
  case (Cons a rs)
  show ?case
  proof (cases "a = r")
    case True
    with Cons.prems show ?thesis by (simp add: filter_other_ids)
  next
    case False
    with Cons.prems have "r \<in> set rs" and "s_id a \<noteq> s_id r" by auto
    with Cons False show ?thesis by auto
  qed
qed

lemma find_removed_token:
  assumes "distinct (map s_sessionToken rs)" and "r \<in> set rs"
  shows "find (\<lambda>x. s_sessionToken x = s_sessionToken r) (remove1 r rs) = None"
proof -
  from assms(1) have d: "distinct rs" and i: "inj_on s_sessionToken (set rs)"
    by (simp_all add: distinct_map)
  have "s_sessionToken x \<noteq> s_sessionToken r" if "x \<in> set (remove1 r rs)" for x
  proof -
    from that d have "x \<in> set rs" and "x \<noteq> r" by auto
    with i assms(2) show ?thesis by (auto dest: inj_onD)
  qed
  then show ?thesis by (auto simp: find_None_iff)
qed

subsection \<open>The session store\<close>

lemma getSession_live:
  assumes "faults w = []" "find (\<lambda>x. s_sessionToken x = t) (sessions w) = Some r"
    "\<not> s_expires r < now e"
  shows "getSession e t w = (Inr (Some (include_user w r)), w)"
  using assms
  by (simp add: getSession_def prisma_session_findUnique_def io_defs include_user_def)

lemma getSession_absent:
  assumes "faults w = []" "find (\<lambda>x. s_sessionToken x = t) (sessions w) = None"
  shows "getSession e t w = (Inr None, w)"
  using assms
  by (simp add: getSession_def prisma_session_findUnique_def io_defs)

lemma getSession_expired:
  assumes "faults w = []" "find (\<lambda>x. s_sessionToken x = t) (sessions w) = Some r"
    "s_expires r < now e"
  shows "getSession e t w =
           (Inr None, w\<lparr>sessions := filter (\<lambda>x. s_id x \<noteq> s_id r) (sessions w)\<rparr>)"
proof -
  from assms(2) have "r \<in> set (sessions w)"
    by (auto simp: find_Some_iff in_set_conv_nth)
  then have "\<exists>x\<in>set (sessions w). s_id x = s_id r" by blast
  with assms show ?thesis
    by (simp add: getSession_def prisma_session_findUnique_def prisma_session_delete_def
          io_defs include_user_def)
qed

text \<open>The store keeps its keys unique: creating a session never breaks the two indexes.\<close>

lemma createSession_keeps_unique:
  assumes "unique_sessions w"
  shows "unique_sessions (snd (createSession e userId w))"
  using assms
  by (auto simp add: unique_sessions_def createSession_def prisma_session_create_def io_defs
        Let_def
      split: list.splits option.splits)

text \<open>
  \<open>verifyPassword\<close> is bcryptjs's \<open>compare\<close> and nothing else: it returns what
  \<open>compare\<close> returns, throws what \<open>compare\<close> throws, and touches nothing.
\<close>

lemma verifyPassword_is_compare:
  "verifyPassword e password h w = (bcrypt_compare e password h, w)"
  by (simp add: verifyPassword_def lift_def)

section \<open>Sign-in failures\<close>

lemma credentials_rejected_iff:
  "credentials_rejected e body w \<longleftrightarrow>
     (\<exists>b email password. body = Some b
        \<and> property b ''email'' = Some (JStr email)
        \<and> property b ''password'' = Some (JStr password)
        \<and> email \<noteq> [] \<and> password \<noteq> [] \<and> store_answers w
        \<and> (email_unregistered w email \<or> hash_missing w email
             \<or> password_mismatch e w email password))"
proof (cases body)
  case None
  then show ?thesis by (simp add: credentials_rejected_def)
next
  case (Some b)
  show ?thesis
  proof (cases "property b ''email''")
    case None
    with Some show ?thesis by (simp add: credentials_rejected_def)
  next
    case em: (Some x)
    show ?thesis
    proof (cases "property b ''password''")
      case None
      with Some em show ?thesis by (simp add: credentials_rejected_def split: json.splits)
    next
      case pw: (Some y)
      with Some em show ?thesis
        by (cases x; cases y) (simp_all add: credentials_rejected_def)
    qed
  qed
qed

lemma signin_rejected_run:
  assumes "credentials_rejected e body w"
  shows "signin e body w = (Inl (H3Error 401 ''Invalid email or password''), after_call w)"
proof -
  from assms obtain b email password where body: "body = Some b"
    and f: "property b ''email'' = Some (JStr email)"
        "property b ''password'' = Some (JStr password)"
    and ne: "email \<noteq> []" "password \<noteq> []" and st: "store_answers w"
    and why: "email_unregistered w email \<or> hash_missing w email
              \<or> password_mismatch e w email password"
    unfolding credentials_rejected_iff by blast
  from f obtain kvs where b: "b = JObj kvs" by (cases b) auto
  from why st f ne show ?thesis
    unfolding body b
    by (auto simp add: signin_def try_catch_def await_def throw_error_def lift_def
          verifyPassword_def prisma_user_findUnique_where_def prisma_user_findUnique_answers
          email_unregistered_def hash_missing_def password_mismatch_def falsy_def
        split: option.splits)
qed

text \<open>
  Claim C1, as stated, gives every sign-in that fails on an unregistered e-mail, a missing
  hash or a non-matching password the same 401. The handler tests its two fields for
  truthiness only. With the number \<open>12345678\<close> as password, an unregistered e-mail gets
  the 401, but for Alice's registered e-mail the value reaches bcrypt's \<open>compare\<close>, which
  rejects it, and the handler's \<open>catch\<close> answers 500 with the library's message: the two
  payloads tell a registered address from an unregistered one. Also, an unregistered
  e-mail with an empty password gets the 400 of the field check, and with the store
  unreachable it gets the 500 of the failed lookup.
\<close>

theorem signin_failure_payloads_counterexample:
  "fst (signin env0 (credentials ''nonexistent@x.com'' (JNum 12345678)) w0)
     = Inl (H3Error 401 ''Invalid email or password'')
   \<and> alice \<in> set (users w0) \<and> u_email alice = ''real@x.com''
   \<and> fst (signin env0 (credentials ''real@x.com'' (JNum 12345678)) w0)
     = Inl (H3Error 500 ''Illegal arguments: number, string'')
   \<and> fst (signin env0 (credentials ''nonexistent@x.com'' (JStr '''')) w0)
     = Inl (H3Error 400 ''Email and password are required'')
   \<and> fst (signin env0 (credentials ''nonexistent@x.com'' (JStr ''anything'')) w_down)
     = Inl (H3Error 500 ''database unreachable'')"
  by (simp add: signin_def model_defs example_defs)

text \<open>
  Claim C1, amended. For every sign-in request whose e-mail and password are non-empty
  strings and whose user lookup the store answers: if the e-mail is not registered, or the
  registered user's password hash is null or empty, or bcrypt's \<open>compare\<close> returns false
  for the password, the handler throws status 401 with the message
  \<open>Invalid email or password\<close>. Any two such failures therefore carry identical error
  payloads, whatever the requests, the stores and the environments were; and such a
  failure writes nothing and sets no cookie.
\<close>

theorem signin_failures_identical:
  assumes "credentials_rejected e1 b1 w1" and "credentials_rejected e2 b2 w2"
  shows "fst (signin e1 b1 w1) = Inl (H3Error 401 ''Invalid email or password'')
       \<and> fst (signin e2 b2 w2) = fst (signin e1 b1 w1)
       \<and> users (snd (signin e1 b1 w1)) = users w1
       \<and> sessions (snd (signin e1 b1 w1)) = sessions w1
       \<and> setCookies (snd (signin e1 b1 w1)) = setCookies w1"
  using assms by (simp add: signin_rejected_run after_call_def)

text \<open>
  The three kinds of failure in the concrete world: an unknown address, Alice with a
  wrong password, and Bob, who has no password hash.
\<close>

theorem signin_failures_identical_witness:
  "credentials_rejected env0 (credentials ''nonexistent@x.com'' (JStr ''anything'')) w0
   \<and> credentials_rejected env0 (credentials ''real@x.com'' (JStr ''wrongpassword'')) w0
   \<and> credentials_rejected env0 (credentials ''bob@x.com'' (JStr ''anything'')) w0
   \<and> fst (signin env0 (credentials ''real@x.com'' (JStr ''wrongpassword'')) w0)
       = fst (signin env0 (credentials ''nonexistent@x.com'' (JStr ''anything'')) w0)
   \<and> fst (signin env0 (credentials ''bob@x.com'' (JStr ''anything'')) w0)
       = fst (signin env0 (credentials ''nonexistent@x.com'' (JStr ''anything'')) w0)"
proof -
  have a: "credentials_rejected env0 (credentials ''nonexistent@x.com'' (JStr ''anything'')) w0"
    by (simp add: credentials_rejected_def store_answers_def next_fault_def
          email_unregistered_def example_defs)
  have b: "credentials_rejected env0 (credentials ''real@x.com'' (JStr ''wrongpassword'')) w0"
    by (simp add: credentials_rejected_def store_answers_def next_fault_def
          email_unregistered_def hash_missing_def password_mismatch_def falsy_def example_defs)
  have c: "credentials_rejected env0 (credentials ''bob@x.com'' (JStr ''anything'')) w0"
    by (simp add: credentials_rejected_def store_answers_def next_fault_def
          email_unregistered_def hash_missing_def password_mismatch_def falsy_def example_defs)
  from signin_failures_identical [OF a b] signin_failures_identical [OF a c] a b c
  show ?thesis by simp
qed

section \<open>Session lookup and lazy expiry\<close>

text \<open>
  Claim C2, as stated, makes a session valid exactly while \<open>now < expires\<close>. The lookup
  tests \<open>session.expires < new Date()\<close>, so a session whose expiry is the current instant
  is still returned: here the clock reads 1000 and the session expires at 1000.
\<close>

theorem getSession_at_expiry_counterexample:
  "session_now \<in> set (sessions w0)
   \<and> \<not> now env0 < s_expires session_now
   \<and> getSession env0 (s_sessionToken session_now) w0
       = (Inr (Some (include_user w0 session_now)), w0)"
  by (simp add: getSession_def prisma_session_findUnique_def include_user_def io_defs
        example_defs)

text \<open>
  Claim C2, amended. With the store reachable and its keys unique, the lookup of a stored
  session's token returns the session joined with the safe projection of its user exactly
  when \<open>now \<le> expires\<close>, leaving the store as it was. When \<open>expires < now\<close> it returns null
  and removes that row and no other; a second lookup of the same token returns null again,
  raises nothing and changes nothing.
\<close>

theorem getSession_valid_until_expiry:
  assumes "faults w = []" and "unique_sessions w" and "r \<in> set (sessions w)"
  shows "(now e \<le> s_expires r \<longrightarrow>
            getSession e (s_sessionToken r) w = (Inr (Some (include_user w r)), w))
       \<and> (s_expires r < now e \<longrightarrow>
            getSession e (s_sessionToken r) w
              = (Inr None, w\<lparr>sessions := remove1 r (sessions w)\<rparr>)
          \<and> getSession e (s_sessionToken r) (w\<lparr>sessions := remove1 r (sessions w)\<rparr>)
              = (Inr None, w\<lparr>sessions := remove1 r (sessions w)\<rparr>))"
proof -
  from assms
  have f: "find (\<lambda>x. s_sessionToken x = s_sessionToken r) (sessions w) = Some r"
    by (simp add: unique_sessions_def find_unique_token)
  from assms
  have d: "filter (\<lambda>x. s_id x \<noteq> s_id r) (sessions w) = remove1 r (sessions w)"
    by (simp add: unique_sessions_def filter_unique_id)
  from assms
  have g: "find (\<lambda>x. s_sessionToken x = s_sessionToken r) (remove1 r (sessions w)) = None"
    by (simp add: unique_sessions_def find_removed_token)
  show ?thesis
    using assms(1) f d g
    by (simp add: getSession_live getSession_expired getSession_absent)
qed

text \<open>The expired session is dropped by its lookup, the one expiring now is returned.\<close>

theorem getSession_valid_until_expiry_witness:
  "faults w0 = [] \<and> unique_sessions w0 \<and> session_old \<in> set (sessions w0)
   \<and> s_expires session_old < now env0
   \<and> getSession env0 ''t2'' w0 = (Inr None, w0\<lparr>sessions := [session_now]\<rparr>)
   \<and> getSession env0 ''t2'' (w0\<lparr>sessions := [session_now]\<rparr>)
        = (Inr None, w0\<lparr>sessions := [session_now]\<rparr>)
   \<and> session_now \<in> set (sessions w0) \<and> now env0 \<le> s_expires session_now
   \<and> getSession env0 ''t1'' w0 = (Inr (Some (include_user w0 session_now)), w0)"
proof -
  have h: "faults w0 = []" "unique_sessions w0" "session_old \<in> set (sessions w0)"
    "session_now \<in> set (sessions w0)"
    by (simp_all add: unique_sessions_def example_defs)
  have k: "s_expires session_old < now env0" "now env0 \<le> s_expires session_now"
    "s_sessionToken session_old = ''t2''" "s_sessionToken session_now = ''t1''"
    "remove1 session_old (sessions w0) = [session_now]"
    by (simp_all add: example_defs)
  from getSession_valid_until_expiry [OF h(1,2,3), of env0]
       getSession_valid_until_expiry [OF h(1,2,4), of env0] h k
  show ?thesis by simp
qed

section \<open>Sign-up with a registered e-mail\<close>

text \<open>
  Claim C3, as stated, has the duplicate e-mail surface as status 409. The sign-up handler
  throws \<open>createError\<close> with status 400 for it: Alice's address is registered, the request
  is otherwise valid, and the caller sees 400.
\<close>

theorem signup_duplicate_status_counterexample:
  "alice \<in> set (users w0) \<and> u_email alice = ''real@x.com''
   \<and> signup env0 (request ''real@x.com'' ''longenough1'') w0
       = (Inl (H3Error 400 ''User with this email already exists''), w0)
   \<and> http_status (fst (signup env0 (request ''real@x.com'' ''longenough1'') w0)) \<noteq> 409"
  by (simp add: signup_def http_status_def emailRegex_test_def plain_def is_space_def
        model_defs example_defs)

text \<open>
  Claim C3, amended. For every sign-up request whose e-mail already belongs to a user, and
  whose lookup the store answers, the handler fails with status 400 and creates no user
  (both tables are as before). When the request passes the validation of its fields, the
  message is \<open>User with this email already exists\<close>.
\<close>

theorem signup_duplicate_email:
  assumes "b_email b = Some email" and "\<exists>u\<in>set (users w). u_email u = email"
    and "store_answers w"
  shows "\<exists>m. fst (signup e b w) = Inl (H3Error 400 m)
           \<and> (email \<noteq> [] \<and> emailRegex_test email
                \<and> (\<exists>password. b_password b = Some password \<and> 8 \<le> length password)
              \<longrightarrow> m = ''User with this email already exists'')
           \<and> users (snd (signup e b w)) = users w
           \<and> sessions (snd (signup e b w)) = sessions w"
proof -
  from find_email_registered [OF assms(2)]
  obtain u where "find (\<lambda>u. u_email u = email) (users w) = Some u" ..
  with assms(1,3) show ?thesis
    by (auto simp add: signup_def try_catch_def await_def throw_error_def
          prisma_user_findUnique_answers after_call_def
        split: option.splits)
qed

text \<open>Signing up with Alice's address.\<close>

theorem signup_duplicate_email_witness:
  "b_email (request ''real@x.com'' ''longenough1'') = Some ''real@x.com''
   \<and> (\<exists>u\<in>set (users w0). u_email u = ''real@x.com'')
   \<and> store_answers w0
   \<and> fst (signup env0 (request ''real@x.com'' ''longenough1'') w0)
       = Inl (H3Error 400 ''User with this email already exists'')
   \<and> users (snd (signup env0 (request ''real@x.com'' ''longenough1'') w0)) = users w0"
proof -
  have h: "b_email (request ''real@x.com'' ''longenough1'') = Some ''real@x.com''"
    "\<exists>u\<in>set (users w0). u_email u = ''real@x.com''" "store_answers w0"
    by (simp_all add: store_answers_def next_fault_def example_defs)
  have v: "''real@x.com'' \<noteq> [] \<and> emailRegex_test ''real@x.com''
     \<and> (\<exists>password. b_password (request ''real@x.com'' ''longenough1'') = Some password
          \<and> 8 \<le> length password)"
    by (simp add: emailRegex_test_def plain_def is_space_def example_defs)
  from signup_duplicate_email [OF h, of env0] v h show ?thesis by auto
qed

section \<open>Sign-out\<close>

text \<open>
  Claim C4, as stated, has sign-out report success even when the deletion of the session
  fails. The handler's \<open>catch\<close> clears the cookie and then throws \<open>createError\<close> with
  status 500: with the store unreachable, the caller gets the error.
\<close>

theorem signout_store_failure_counterexample:
  "signout env0 (Some ''t1'') w_down
     = (Inl (H3Error 500 ''database unreachable''), w0\<lparr>setCookies := [clear_cookie env0]\<rparr>)"
  by (simp add: signout_def clear_cookie_def model_defs example_defs)

text \<open>
  Claim C4, amended. Every invocation of sign-out clears the session cookie (empty value,
  \<open>Max-Age\<close> 0), whether or not a token was sent and whether or not the deletion
  succeeded. It reports success when no token was sent or when the store carried out the
  deletion; when the deletion fails it throws status 500 with the message of the failure
  (\<open>Failed to sign out\<close> if that is empty).
\<close>

theorem signout_clears_cookie:
  "setCookies (snd (signout e c w)) = setCookies w @ [clear_cookie e]
   \<and> (falsy c \<or> store_answers w \<longrightarrow> fst (signout e c w) = Inr signed_out)
   \<and> (\<forall>msg. \<not> falsy c \<and> next_fault w = Some msg \<longrightarrow>
         fst (signout e c w)
           = Inl (H3Error 500 (if msg = [] then ''Failed to sign out'' else msg)))"
  by (auto simp add: signout_def deleteSession_def prisma_session_deleteMany_run
        ret_def throw_error_def await_def try_catch_def setCookie_def
        clear_cookie_def signed_out_def falsy_def store_answers_def after_call_def
      split: option.splits)

text \<open>No cookie and no store; a token and a working store; a token and no store.\<close>

theorem signout_clears_cookie_witness:
  "falsy None \<and> fst (signout env0 None w_down) = Inr signed_out
   \<and> setCookies (snd (signout env0 None w_down)) = [clear_cookie env0]
   \<and> store_answers w0 \<and> fst (signout env0 (Some ''t1'') w0) = Inr signed_out
   \<and> setCookies (snd (signout env0 (Some ''t1'') w0)) = [clear_cookie env0]
   \<and> \<not> falsy (Some ''t1'') \<and> next_fault w_down = Some ''database unreachable''
   \<and> fst (signout env0 (Some ''t1'') w_down) = Inl (H3Error 500 ''database unreachable'')
   \<and> setCookies (snd (signout env0 (Some ''t1'') w_down)) = [clear_cookie env0]"
proof -
  have h: "falsy None" "store_answers w0" "\<not> falsy (Some ''t1'')"
    "next_fault w_down = Some ''database unreachable''"
    "setCookies w0 = []" "setCookies w_down = []"
    by (simp_all add: falsy_def store_answers_def next_fault_def example_defs)
  from signout_clears_cookie [of env0 None w_down]
       signout_clears_cookie [of env0 "Some ''t1''" w0]
       signout_clears_cookie [of env0 "Some ''t1''" w_down] h
  show ?thesis by simp
qed

section \<open>No password hash in a response\<close>

lemma user_object_flat: "kv \<in> set (user_object u) \<Longrightarrow> \<not> has_key k (snd kv)"
  by (auto simp add: user_object_def opt_str_def split: option.splits)

lemma has_key_flat:
  assumes "\<And>kv. kv \<in> set obj \<Longrightarrow> \<not> has_key k (snd kv)"
  shows "has_key k (JObj obj) = (k \<in> fst ` set obj)"
  using assms by auto

lemma select_fields_no_hash:
  assumes "''passwordHash'' \<notin> set ks"
  shows "\<not> has_key ''passwordHash'' (JObj (select_fields ks (user_object u)))"
proof -
  have "has_key ''passwordHash'' (JObj (select_fields ks (user_object u)))
        = (''passwordHash'' \<in> fst ` set (select_fields ks (user_object u)))"
    by (rule has_key_flat) (auto simp add: select_fields_def dest: user_object_flat)
  with assms show ?thesis by (auto simp add: select_fields_def)
qed

lemma omit_field_no_hash:
  "\<not> has_key ''passwordHash''
       (JObj (omit_field ''passwordHash'' (select_fields ks (user_object u))))"
proof -
  have "has_key ''passwordHash''
          (JObj (omit_field ''passwordHash'' (select_fields ks (user_object u))))
        = (''passwordHash''
             \<in> fst ` set (omit_field ''passwordHash'' (select_fields ks (user_object u))))"
    by (rule has_key_flat)
       (auto simp add: omit_field_def select_fields_def dest: user_object_flat)
  then show ?thesis by (auto simp add: omit_field_def)
qed

lemma safe_user_no_hash:
  "\<not> has_key ''passwordHash'' (JObj (select_fields safe_user_fields (user_object u)))"
  by (rule select_fields_no_hash) (simp add: safe_user_fields_def)

lemma pair_no_key:
  "k \<noteq> k1 \<Longrightarrow> k \<noteq> k2 \<Longrightarrow> \<not> has_key k v1 \<Longrightarrow> \<not> has_key k v2 \<Longrightarrow>
   \<not> has_key k (JObj [(k1, v1), (k2, v2)])"
  by simp

lemma triple_no_key:
  "k \<noteq> k1 \<Longrightarrow> k \<noteq> k2 \<Longrightarrow> k \<noteq> k3 \<Longrightarrow>
   \<not> has_key k v1 \<Longrightarrow> \<not> has_key k v2 \<Longrightarrow> \<not> has_key k v3 \<Longrightarrow>
   \<not> has_key k (JObj [(k1, v1), (k2, v2), (k3, v3)])"
  by simp

text \<open>What a successful response looks like, handler by handler.\<close>

lemma signup_success_shape:
  "fst (signup e b w) = Inr r \<Longrightarrow>
   \<exists>u. r = JObj [(''success'', JBool True),
                 (''user'', JObj (select_fields
                    [''id'', ''email'', ''name'', ''emailVerified'',
                     ''onboardingCompleted'', ''createdAt'']
                    (user_object u)))]"
  by (auto simp add: signup_def io_defs prisma_user_findUnique_def prisma_user_create_def
        hashPassword_def
      split: option.splits list.splits if_splits sum.splits prod.splits)

lemma signin_success_shape:
  "fst (signin e b w) = Inr r \<Longrightarrow>
   \<exists>u t x. r = JObj [(''success'', JBool True),
                 (''session'', JObj [(''sessionToken'', JStr t), (''expires'', JStr x)]),
                 (''user'', JObj (omit_field ''passwordHash'' (select_fields
                    [''id'', ''email'', ''name'', ''image'', ''passwordHash'',
                     ''tenantId'', ''onboardingCompleted'', ''emailVerified'']
                    (user_object u))))]"
  by (auto simp add: signin_def io_defs prisma_user_findUnique_def
        prisma_user_findUnique_where_def prisma_session_create_def
        verifyPassword_def createSession_def Let_def
      split: option.splits list.splits if_splits sum.splits prod.splits json.splits)

lemma include_user_shape:
  "sw_user (include_user w r) = None
   \<or> (\<exists>u. sw_user (include_user w r)
            = Some (JObj (select_fields safe_user_fields (user_object u))))"
  by (cases "find (\<lambda>u. u_id u = s_userId r) (users w)") (auto simp add: include_user_def)

lemma getSession_success_shape:
  "fst (getSession e t w) = Inr (Some s) \<Longrightarrow> \<exists>w' r. s = include_user w' r"
  by (auto simp add: getSession_def io_defs prisma_session_findUnique_def
        prisma_session_delete_def
      split: option.splits list.splits if_splits sum.splits prod.splits)

lemma get_session_success_shape:
  "fst (get_session e c w) = Inr r \<Longrightarrow>
   r = no_session \<or>
   (\<exists>t s. c = Some t \<and> fst (getSession e t w) = Inr (Some s) \<and>
      r = JObj [(''session'', JObj
                   [(''id'', JStr (s_id (sw_session s))),
                    (''sessionToken'', JStr (s_sessionToken (sw_session s))),
                    (''expires'', JStr (toISOString e (s_expires (sw_session s))))]),
                (''user'', (case sw_user s of None \<Rightarrow> JNull | Some u \<Rightarrow> u))])"
  by (auto simp add: get_session_def try_catch_def await_def ret_def throw_error_def
        setCookie_def no_session_def
      split: option.splits if_splits sum.splits prod.splits)

lemma getSession_user_no_hash:
  assumes "fst (getSession e t w) = Inr (Some s)"
  shows "\<not> has_key ''passwordHash'' (case sw_user s of None \<Rightarrow> JNull | Some u \<Rightarrow> u)"
proof -
  from assms obtain w' r where s: "s = include_user w' r"
    by (blast dest: getSession_success_shape)
  from include_user_shape [of w' r] show ?thesis
  proof
    assume "sw_user (include_user w' r) = None"
    with s show ?thesis by simp
  next
    assume "\<exists>u. sw_user (include_user w' r)
                 = Some (JObj (select_fields safe_user_fields (user_object u)))"
    then obtain u
      where "sw_user s = Some (JObj (select_fields safe_user_fields (user_object u)))"
      using s by blast
    with safe_user_no_hash [of u] show ?thesis by (simp del: has_key.simps)
  qed
qed

lemma signup_no_hash:
  assumes "fst (signup e b w) = Inr r"
  shows "\<not> has_key ''passwordHash'' r"
proof -
  from signup_success_shape [OF assms] obtain u where
    r: "r = JObj [(''success'', JBool True),
                 (''user'', JObj (select_fields
                    [''id'', ''email'', ''name'', ''emailVerified'',
                     ''onboardingCompleted'', ''createdAt'']
                    (user_object u)))]"
    by blast
  show ?thesis
    unfolding r by (intro pair_no_key select_fields_no_hash) simp_all
qed

lemma signin_no_hash:
  assumes "fst (signin e b w) = Inr r"
  shows "\<not> has_key ''passwordHash'' r"
proof -
  from signin_success_shape [OF assms] obtain u t x where
    r: "r = JObj [(''success'', JBool True),
                 (''session'', JObj [(''sessionToken'', JStr t), (''expires'', JStr x)]),
                 (''user'', JObj (omit_field ''passwordHash'' (select_fields
                    [''id'', ''email'', ''name'', ''image'', ''passwordHash'',
                     ''tenantId'', ''onboardingCompleted'', ''emailVerified'']
                    (user_object u))))]"
    by blast
  show ?thesis
    unfolding r by (intro triple_no_key omit_field_no_hash) simp_all
qed

lemma get_session_no_hash:
  assumes "fst (get_session e c w) = Inr r"
  shows "\<not> has_key ''passwordHash'' r"
proof -
  from get_session_success_shape [OF assms] show ?thesis
  proof
    assume "r = no_session"
    then show ?thesis by (simp add: no_session_def)
  next
    assume "\<exists>t s. c = Some t \<and> fst (getSession e t w) = Inr (Some s) \<and>
      r = JObj [(''session'', JObj
                   [(''id'', JStr (s_id (sw_session s))),
                    (''sessionToken'', JStr (s_sessionToken (sw_session s))),
                    (''expires'', JStr (toISOString e (s_expires (sw_session s))))]),
                (''user'', (case sw_user s of None \<Rightarrow> JNull | Some u \<Rightarrow> u))]"
    then obtain t s where g: "fst (getSession e t w) = Inr (Some s)"
      and r: "r = JObj [(''session'', JObj
                   [(''id'', JStr (s_id (sw_session s))),
                    (''sessionToken'', JStr (s_sessionToken (sw_session s))),
                    (''expires'', JStr (toISOString e (s_expires (sw_session s))))]),
                (''user'', (case sw_user s of None \<Rightarrow> JNull | Some u \<Rightarrow> u))]"
      by blast
    show ?thesis
      unfolding r by (intro pair_no_key getSession_user_no_hash [OF g]) simp_all
  qed
qed

text \<open>
  Claim C5. No successful response of sign-up, sign-in or get-session has a field named
  \<open>passwordHash\<close> at any depth: sign-up selects six fields of the created user, sign-in
  strips the hash from the user it read, and the session lookup joins only the safe
  projection of the user, which is also all that the store function \<open>getSession\<close> returns
  of the user.
\<close>

theorem no_passwordHash_in_success:
  "(fst (signup e1 b1 w1) = Inr r1 \<longrightarrow> \<not> has_key ''passwordHash'' r1)
   \<and> (fst (signin e2 b2 w2) = Inr r2 \<longrightarrow> \<not> has_key ''passwordHash'' r2)
   \<and> (fst (get_session e3 c w3) = Inr r3 \<longrightarrow> \<not> has_key ''passwordHash'' r3)
   \<and> (fst (getSession e4 t w4) = Inr (Some s) \<longrightarrow>
        \<not> has_key ''passwordHash'' (case sw_user s of None \<Rightarrow> JNull | Some u \<Rightarrow> u))"
  by (intro conjI impI signup_no_hash signin_no_hash get_session_no_hash
        getSession_user_no_hash)

text \<open>A new user signs up, Alice signs in, and Alice's session is looked up.\<close>

theorem no_passwordHash_in_success_witness:
  "fst (signup env0 (request ''a@b.com'' ''longenough1'') w0) = Inr signup_ok
   \<and> \<not> has_key ''passwordHash'' signup_ok
   \<and> fst (signin env0 (credentials ''real@x.com'' (JStr ''password123'')) w0) = Inr signin_ok
   \<and> \<not> has_key ''passwordHash'' signin_ok
   \<and> fst (get_session env0 (Some ''t1'') w0) = Inr session_ok
   \<and> \<not> has_key ''passwordHash'' session_ok
   \<and> fst (getSession env0 ''t1'' w0)
       = Inr (Some \<lparr>sw_session = session_now, sw_user = Some alice_safe\<rparr>)
   \<and> \<not> has_key ''passwordHash'' alice_safe"
proof -
  have a: "fst (signup env0 (request ''a@b.com'' ''longenough1'') w0) = Inr signup_ok"
    by (simp add: signup_def signup_ok_def emailRegex_test_def plain_def is_space_def
          model_defs example_defs)
  have b: "fst (signin env0 (credentials ''real@x.com'' (JStr ''password123'')) w0)
             = Inr signin_ok"
    by (simp add: signin_def signin_ok_def alice_safe_def model_defs example_defs)
  have d: "fst (getSession env0 ''t1'' w0)
             = Inr (Some \<lparr>sw_session = session_now, sw_user = Some alice_safe\<rparr>)"
    by (simp add: alice_safe_def model_defs example_defs)
  have c: "fst (get_session env0 (Some ''t1'') w0) = Inr session_ok"
    by (simp add: get_session_def session_ok_def alice_safe_def model_defs example_defs)
  from no_passwordHash_in_success
         [of env0 "request ''a@b.com'' ''longenough1''" w0 signup_ok
             env0 "credentials ''real@x.com'' (JStr ''password123'')" w0 signin_ok
             env0 "Some ''t1''" w0 session_ok
             env0 "''t1''" w0 "\<lparr>sw_session = session_now, sw_user = Some alice_safe\<rparr>"]
       a b c d
  show ?thesis by simp
qed

section \<open>Get-session without a valid session\<close>

lemma include_user_faults: "include_user (w\<lparr>faults := fs\<rparr>) = include_user w"
  by (simp add: include_user_def fun_eq_iff)

lemma prisma_session_findUnique_run:
  "prisma_session_findUnique t w =
     (case next_fault w of
        Some msg \<Rightarrow> (Inl (Error msg), after_call w)
      | None \<Rightarrow> (Inr (map_option (include_user w)
                         (find (\<lambda>r. s_sessionToken r = t) (sessions w))), after_call w))"
  by (simp add: prisma_session_findUnique_def prisma_call_def next_fault_def after_call_def
        include_user_faults
      split: list.splits option.splits)

lemma prisma_session_delete_run:
  "prisma_session_delete i w =
     (case next_fault w of
        Some msg \<Rightarrow> (Inl (Error msg), after_call w)
      | None \<Rightarrow>
          if \<exists>x \<in> set (sessions w). s_id x = i
          then (Inr (), (after_call w)\<lparr>sessions := filter (\<lambda>x. s_id x \<noteq> i) (sessions w)\<rparr>)
          else (Inl (Error P2025), after_call w))"
  by (simp add: prisma_session_delete_def prisma_call_def next_fault_def after_call_def
      split: list.splits option.splits)

lemma getSession_lookup_fails:
  assumes "next_fault w = Some msg"
  shows "getSession e t w = (Inl (Error msg), after_call w)"
  using assms by (simp add: getSession_def prisma_session_findUnique_run await_def)

lemma getSession_no_row:
  assumes "next_fault w = None" "find (\<lambda>r. s_sessionToken r = t) (sessions w) = None"
  shows "getSession e t w = (Inr None, after_call w)"
  using assms by (simp add: getSession_def prisma_session_findUnique_run await_def ret_def)

lemma getSession_expired_row:
  assumes "next_fault w = None" "find (\<lambda>x. s_sessionToken x = t) (sessions w) = Some r"
    "s_expires r < now e"
  shows "getSession e t w =
     (case next_fault (after_call w) of
        Some msg \<Rightarrow> (Inl (Error msg), after_call (after_call w))
      | None \<Rightarrow> (Inr None, (after_call (after_call w))
                     \<lparr>sessions := filter (\<lambda>x. s_id x \<noteq> s_id r) (sessions w)\<rparr>))"
proof -
  from assms(2) have "r \<in> set (sessions w)"
    by (auto simp: find_Some_iff in_set_conv_nth)
  then have "\<exists>x\<in>set (sessions (after_call w)). s_id x = s_id r"
    by (auto simp add: after_call_def)
  with assms show ?thesis
    by (simp add: getSession_def prisma_session_findUnique_run prisma_session_delete_run
          await_def ret_def include_user_def after_call_def split: option.splits)
qed

lemma get_session_no_cookie:
  "falsy c \<Longrightarrow> get_session e c w = (Inr no_session, w)"
  by (auto simp add: get_session_def try_catch_def ret_def no_session_def falsy_def
      split: option.splits)

lemma get_session_rejected:
  assumes "t \<noteq> []" and "getSession e t w = (Inr None, w')"
  shows "get_session e (Some t) w
           = (Inr no_session, w'\<lparr>setCookies := setCookies w' @ [clear_cookie e]\<rparr>)"
  using assms
  by (simp add: get_session_def io_defs clear_cookie_def no_session_def)

lemma get_session_store_fails:
  assumes "t \<noteq> []" and "getSession e t w = (Inl (Error msg), w')"
  shows "get_session e (Some t) w
           = (Inl (H3Error 500 (if msg = [] then ''Failed to get session'' else msg)), w')"
  using assms
  by (simp add: get_session_def io_defs)

text \<open>
  Claim C6, as stated, has get-session clear the cookie also when the request bears no
  session-token cookie. In that case the handler returns the two nulls before any
  \<open>setCookie\<close>: the world, and with it the list of \<open>Set-Cookie\<close> headers, is untouched.
\<close>

theorem get_session_no_cookie_counterexample:
  "get_session env0 None w0 = (Inr no_session, w0) \<and> setCookies w0 = []"
  by (simp add: get_session_def no_session_def try_catch_def ret_def example_defs)

text \<open>
  Claim C6, amended. A get-session request without a session-token cookie (or with an
  empty one) returns \<open>(session: null, user: null)\<close> and changes nothing, no cookie
  included. A request whose token matches no session, or matches an expired one
  (\<open>expires < now\<close>), returns the same two nulls and clears the session cookie, provided
  the store carries out the lookup and, for an expired session, the deletion of its row.
  When one of these store calls fails, the handler throws status 500 with the message of
  the failure (\<open>Failed to get session\<close> if that is empty) and sets no cookie.
\<close>

theorem get_session_nulls:
  "(falsy c \<longrightarrow> get_session e c w = (Inr no_session, w))
   \<and> (\<forall>t. c = Some t \<and> t \<noteq> [] \<and> next_fault w = None
          \<and> find (\<lambda>r. s_sessionToken r = t) (sessions w) = None \<longrightarrow>
        fst (get_session e c w) = Inr no_session
        \<and> setCookies (snd (get_session e c w)) = setCookies w @ [clear_cookie e])
   \<and> (\<forall>t r. c = Some t \<and> t \<noteq> [] \<and> next_fault w = None
          \<and> find (\<lambda>r. s_sessionToken r = t) (sessions w) = Some r \<and> s_expires r < now e
          \<and> next_fault (after_call w) = None \<longrightarrow>
        fst (get_session e c w) = Inr no_session
        \<and> setCookies (snd (get_session e c w)) = setCookies w @ [clear_cookie e])
   \<and> (\<forall>t msg. c = Some t \<and> t \<noteq> [] \<and> next_fault w = Some msg \<longrightarrow>
        fst (get_session e c w)
          = Inl (H3Error 500 (if msg = [] then ''Failed to get session'' else msg))
        \<and> setCookies (snd (get_session e c w)) = setCookies w)
   \<and> (\<forall>t r msg. c = Some t \<and> t \<noteq> [] \<and> next_fault w = None
          \<and> find (\<lambda>r. s_sessionToken r = t) (sessions w) = Some r \<and> s_expires r < now e
          \<and> next_fault (after_call w) = Some msg \<longrightarrow>
        fst (get_session e c w)
          = Inl (H3Error 500 (if msg = [] then ''Failed to get session'' else msg))
        \<and> setCookies (snd (get_session e c w)) = setCookies w)"
proof (intro conjI allI impI)
  assume "falsy c"
  then show "get_session e c w = (Inr no_session, w)" by (rule get_session_no_cookie)
next
  fix t
  assume a: "c = Some t \<and> t \<noteq> [] \<and> next_fault w = None
          \<and> find (\<lambda>r. s_sessionToken r = t) (sessions w) = None"
  then have "get_session e c w
      = (Inr no_session, (after_call w)\<lparr>setCookies := setCookies (after_call w) @ [clear_cookie e]\<rparr>)"
    by (simp add: get_session_rejected getSession_no_row)
  then show "fst (get_session e c w) = Inr no_session"
    "setCookies (snd (get_session e c w)) = setCookies w @ [clear_cookie e]"
    by (simp_all add: after_call_def)
next
  fix t r
  assume a: "c = Some t \<and> t \<noteq> [] \<and> next_fault w = None
          \<and> find (\<lambda>r. s_sessionToken r = t) (sessions w) = Some r \<and> s_expires r < now e
          \<and> next_fault (after_call w) = None"
  then have "getSession e t w = (Inr None, (after_call (after_call w))
                     \<lparr>sessions := filter (\<lambda>x. s_id x \<noteq> s_id r) (sessions w)\<rparr>)"
    by (simp add: getSession_expired_row)
  with a have "get_session e c w
      = (Inr no_session, (after_call (after_call w))
           \<lparr>sessions := filter (\<lambda>x. s_id x \<noteq> s_id r) (sessions w),
            setCookies := setCookies w @ [clear_cookie e]\<rparr>)"
    by (simp add: get_session_rejected after_call_def)
  then show "fst (get_session e c w) = Inr no_session"
    "setCookies (snd (get_session e c w)) = setCookies w @ [clear_cookie e]"
    by simp_all
next
  fix t msg
  assume a: "c = Some t \<and> t \<noteq> [] \<and> next_fault w = Some msg"
  then have "get_session e c w
      = (Inl (H3Error 500 (if msg = [] then ''Failed to get session'' else msg)), after_call w)"
    by (simp add: get_session_store_fails getSession_lookup_fails)
  then show "fst (get_session e c w)
          = Inl (H3Error 500 (if msg = [] then ''Failed to get session'' else msg))"
    "setCookies (snd (get_session e c w)) = setCookies w"
    by (simp_all add: after_call_def)
next
  fix t r msg
  assume a: "c = Some t \<and> t \<noteq> [] \<and> next_fault w = None
          \<and> find (\<lambda>r. s_sessionToken r = t) (sessions w) = Some r \<and> s_expires r < now e
          \<and> next_fault (after_call w) = Some msg"
  then have "getSession e t w = (Inl (Error msg), after_call (after_call w))"
    by (simp add: getSession_expired_row)
  with a have "get_session e c w
      = (Inl (H3Error 500 (if msg = [] then ''Failed to get session'' else msg)),
         after_call (after_call w))"
    by (simp add: get_session_store_fails)
  then show "fst (get_session e c w)
          = Inl (H3Error 500 (if msg = [] then ''Failed to get session'' else msg))"
    "setCookies (snd (get_session e c w)) = setCookies w"
    by (simp_all add: after_call_def)
qed

text \<open>
  No cookie, a token nobody holds, and the token of the expired session: with a working
  store, with a store that fails the lookup, and with one that fails the deletion.
\<close>

theorem get_session_nulls_witness:
  "falsy None \<and> get_session env0 None w0 = (Inr no_session, w0)
   \<and> next_fault w0 = None
   \<and> find (\<lambda>r. s_sessionToken r = ''bogus'') (sessions w0) = None
   \<and> fst (get_session env0 (Some ''bogus'') w0) = Inr no_session
   \<and> setCookies (snd (get_session env0 (Some ''bogus'') w0)) = [clear_cookie env0]
   \<and> find (\<lambda>r. s_sessionToken r = ''t2'') (sessions w0) = Some session_old
   \<and> s_expires session_old < now env0
   \<and> next_fault (after_call w0) = None
   \<and> fst (get_session env0 (Some ''t2'') w0) = Inr no_session
   \<and> setCookies (snd (get_session env0 (Some ''t2'') w0)) = [clear_cookie env0]
   \<and> next_fault w_down = Some ''database unreachable''
   \<and> fst (get_session env0 (Some ''t2'') w_down) = Inl (H3Error 500 ''database unreachable'')
   \<and> setCookies (snd (get_session env0 (Some ''t2'') w_down)) = []
   \<and> next_fault w_delete_fails = None
   \<and> find (\<lambda>r. s_sessionToken r = ''t2'') (sessions w_delete_fails) = Some session_old
   \<and> next_fault (after_call w_delete_fails) = Some ''database unreachable''
   \<and> fst (get_session env0 (Some ''t2'') w_delete_fails)
        = Inl (H3Error 500 ''database unreachable'')
   \<and> setCookies (snd (get_session env0 (Some ''t2'') w_delete_fails)) = []"
proof -
  have h: "falsy None" "next_fault w0 = None" "setCookies w0 = []"
    "find (\<lambda>r. s_sessionToken r = ''bogus'') (sessions w0) = None"
    "find (\<lambda>r. s_sessionToken r = ''t2'') (sessions w0) = Some session_old"
    "s_expires session_old < now env0"
    "next_fault (after_call w0) = None"
    "next_fault w_down = Some ''database unreachable''" "setCookies w_down = []"
    "next_fault w_delete_fails = None" "setCookies w_delete_fails = []"
    "find (\<lambda>r. s_sessionToken r = ''t2'') (sessions w_delete_fails) = Some session_old"
    "next_fault (after_call w_delete_fails) = Some ''database unreachable''"
    by (simp_all add: falsy_def next_fault_def after_call_def w_delete_fails_def example_defs)
  from get_session_nulls [of None env0 w0]
       get_session_nulls [of "Some ''bogus''" env0 w0]
       get_session_nulls [of "Some ''t2''" env0 w0]
       get_session_nulls [of "Some ''t2''" env0 w_down]
       get_session_nulls [of "Some ''t2''" env0 w_delete_fails] h
  show ?thesis by simp
qed

section \<open>What a successful sign-in writes\<close>

text \<open>
  Claim C8. A successful sign-in leaves the user table as it was and appends exactly one
  row to the session table: the row carries the freshly generated token, the id of the
  user found for the e-mail, and \<open>expires = now + 30 days\<close> (in milliseconds). Every
  session that existed before is still there, unchanged.
\<close>

theorem signin_success_frame:
  assumes "signin e body w = (Inr r, w')"
  shows "users w' = users w
       \<and> (\<exists>b email u. body = Some b
            \<and> property b ''email'' = Some (JStr email)
            \<and> find (\<lambda>u. u_email u = email) (users w) = Some u
            \<and> sessions w' = sessions w @
                [\<lparr>s_id = cuid e, s_sessionToken = randomBytes32_hex e,
                  s_userId = u_id u, s_expires = now e + 30 * 24 * 60 * 60 * 1000\<rparr>])"
  using assms
  by (auto simp add: signin_def io_defs prisma_user_findUnique_def
        prisma_user_findUnique_where_def prisma_session_create_def
        verifyPassword_def createSession_def generateSessionToken_def SESSION_MAX_AGE_def
        Let_def
      split: option.splits list.splits if_splits sum.splits prod.splits json.splits)

text \<open>Alice signs in with her password.\<close>

theorem signin_success_frame_witness:
  "fst (signin env0 (credentials ''real@x.com'' (JStr ''password123'')) w0) = Inr signin_ok
   \<and> users (snd (signin env0 (credentials ''real@x.com'' (JStr ''password123'')) w0)) = users w0
   \<and> sessions (snd (signin env0 (credentials ''real@x.com'' (JStr ''password123'')) w0))
       = sessions w0 @ [\<lparr>s_id = ''c9'', s_sessionToken = ''t9'', s_userId = ''u1'',
                          s_expires = 2592001000\<rparr>]"
proof -
  have r: "fst (signin env0 (credentials ''real@x.com'' (JStr ''password123'')) w0) = Inr signin_ok"
    by (simp add: signin_def signin_ok_def alice_safe_def model_defs example_defs)
  then have p: "signin env0 (credentials ''real@x.com'' (JStr ''password123'')) w0
     = (Inr signin_ok, snd (signin env0 (credentials ''real@x.com'' (JStr ''password123'')) w0))"
    by (simp add: prod_eq_iff)
  have f: "find (\<lambda>u. u_email u = ''real@x.com'') (users w0) = Some alice"
    "u_id alice = ''u1''" "cuid env0 = ''c9''" "randomBytes32_hex env0 = ''t9''"
    "now env0 = 1000"
    "\<And>b. credentials ''real@x.com'' (JStr ''password123'') = Some b \<Longrightarrow>
        property b ''email'' = Some (JStr ''real@x.com'')"
    by (auto simp add: example_defs)
  from signin_success_frame [OF p] r f show ?thesis by auto
qed

section \<open>A failed sign-up writes nothing\<close>

lemma signup_failure_unchanged:
  assumes "signup e b w = (Inl err, w')"
  shows "users w' = users w \<and> sessions w' = sessions w \<and> setCookies w' = setCookies w"
  using assms
  by (auto simp add: signup_def io_defs prisma_user_findUnique_def prisma_user_create_def
        hashPassword_def
      split: option.splits list.splits if_splits sum.splits prod.splits)

lemma signup_rejects_bad_input:
  assumes "falsy (b_email b) \<or> falsy (b_password b)
         \<or> (\<exists>email. b_email b = Some email \<and>
              (\<not> emailRegex_test email \<or> (\<exists>u\<in>set (users w). u_email u = email)))
         \<or> (\<exists>password. b_password b = Some password \<and> length password < 8)"
  shows "\<exists>err. fst (signup e b w) = Inl err"
proof (cases "find (\<lambda>u. u_email u = (case b_email b of Some x \<Rightarrow> x | None \<Rightarrow> []))
                (users w)")
  case None
  then have "\<forall>u\<in>set (users w). u_email u \<noteq> (case b_email b of Some x \<Rightarrow> x | None \<Rightarrow> [])"
    by (auto simp add: find_None_iff)
  with assms show ?thesis
    by (auto simp add: signup_def io_defs prisma_user_findUnique_def falsy_def
      split: option.splits list.splits if_splits sum.splits prod.splits)
next
  case (Some a)
  then show ?thesis
    by (auto simp add: signup_def io_defs prisma_user_findUnique_def falsy_def
      split: option.splits list.splits if_splits sum.splits prod.splits)
qed

text \<open>
  Claim C9. Whenever sign-up fails it has written nothing: both tables are as before.
  And it does fail when the e-mail or the password is missing, when the e-mail does not
  match the pattern, when the password has fewer than 8 characters, and when the e-mail is
  already registered; all of these checks come before the one write,
  \<open>prisma.user.create\<close>.
\<close>

theorem signup_failure_no_write:
  "(\<forall>err. fst (signup e b w) = Inl err \<longrightarrow>
      users (snd (signup e b w)) = users w \<and> sessions (snd (signup e b w)) = sessions w)
   \<and> (falsy (b_email b) \<or> falsy (b_password b)
        \<or> (\<exists>email. b_email b = Some email \<and>
              (\<not> emailRegex_test email \<or> (\<exists>u\<in>set (users w). u_email u = email)))
        \<or> (\<exists>password. b_password b = Some password \<and> length password < 8)
       \<longrightarrow> (\<exists>err. fst (signup e b w) = Inl err))"
proof (intro conjI allI impI)
  fix err
  assume "fst (signup e b w) = Inl err"
  then have "signup e b w = (Inl err, snd (signup e b w))"
    by (simp add: prod_eq_iff)
  then show "users (snd (signup e b w)) = users w" "sessions (snd (signup e b w)) = sessions w"
    by (simp_all add: signup_failure_unchanged)
next
  assume "falsy (b_email b) \<or> falsy (b_password b)
        \<or> (\<exists>email. b_email b = Some email \<and>
              (\<not> emailRegex_test email \<or> (\<exists>u\<in>set (users w). u_email u = email)))
        \<or> (\<exists>password. b_password b = Some password \<and> length password < 8)"
  then show "\<exists>err. fst (signup e b w) = Inl err" by (rule signup_rejects_bad_input)
qed

text \<open>A registered address, and a malformed address with a short password.\<close>

theorem signup_failure_no_write_witness:
  "fst (signup env0 (request ''real@x.com'' ''longenough1'') w0)
     = Inl (H3Error 400 ''User with this email already exists'')
   \<and> users (snd (signup env0 (request ''real@x.com'' ''longenough1'') w0)) = users w0
   \<and> sessions (snd (signup env0 (request ''real@x.com'' ''longenough1'') w0)) = sessions w0
   \<and> fst (signup env0 (request ''not-an-email'' ''short'') w_down)
     = Inl (H3Error 400 ''Invalid email format'')
   \<and> users (snd (signup env0 (request ''not-an-email'' ''short'') w_down)) = users w_down"
proof -
  have a: "fst (signup env0 (request ''real@x.com'' ''longenough1'') w0)
     = Inl (H3Error 400 ''User with this email already exists'')"
    by (simp add: signup_def emailRegex_test_def plain_def is_space_def model_defs
          example_defs)
  have b: "fst (signup env0 (request ''not-an-email'' ''short'') w_down)
     = Inl (H3Error 400 ''Invalid email format'')"
    by (simp add: signup_def emailRegex_test_def plain_def is_space_def model_defs
          example_defs)
  from signup_failure_no_write [of env0 "request ''real@x.com'' ''longenough1''" w0]
       signup_failure_no_write [of env0 "request ''not-an-email'' ''short''" w_down] a b
  show ?thesis by simp
qed

section \<open>Optional authentication\<close>

lemma requireAuth_errors:
  "fst (requireAuth e c w) = Inl err \<Longrightarrow>
   err = H3Error 401 ''Unauthorized - No session token''
   \<or> err = H3Error 401 ''Unauthorized - Invalid or expired session''
   \<or> (\<exists>msg. err = Error msg)"
  by (auto simp add: requireAuth_def getSession_def prisma_session_findUnique_def
        prisma_session_delete_def io_defs Let_def
      split: option.splits list.splits if_splits sum.splits prod.splits)

text \<open>
  Claim C10, as stated, has \<open>getOptionalAuth\<close> return null in exactly the cases where
  \<open>requireAuth\<close> raises Unauthorized. Its \<open>catch\<close> has no condition: with the store
  unreachable \<open>requireAuth\<close> raises the store's error, which is no 401, and
  \<open>getOptionalAuth\<close> returns null all the same.
\<close>

theorem getOptionalAuth_store_error_counterexample:
  "fst (requireAuth env0 (Some ''t1'') w_down) = Inl (Error ''database unreachable'')
   \<and> http_status (fst (requireAuth env0 (Some ''t1'') w_down)) \<noteq> 401
   \<and> fst (getOptionalAuth env0 (Some ''t1'') w_down) = Inr None"
  by (simp add: getOptionalAuth_def requireAuth_def http_status_def model_defs example_defs)

text \<open>
  Claim C10, amended. \<open>getOptionalAuth\<close> never throws. It has the effects of
  \<open>requireAuth\<close>, returns the \<open>{session, user}\<close> value that \<open>requireAuth\<close> returns when
  there is a valid session, and returns null in exactly the cases where \<open>requireAuth\<close>
  raises anything at all: one of its two Unauthorized errors, or an error of the store.
\<close>

theorem getOptionalAuth_never_throws:
  "(\<exists>v. fst (getOptionalAuth e c w) = Inr v)
   \<and> snd (getOptionalAuth e c w) = snd (requireAuth e c w)
   \<and> (\<forall>v. fst (requireAuth e c w) = Inr v \<longrightarrow> fst (getOptionalAuth e c w) = Inr (Some v))
   \<and> (fst (getOptionalAuth e c w) = Inr None \<longleftrightarrow> (\<exists>err. fst (requireAuth e c w) = Inl err))
   \<and> (\<forall>err. fst (requireAuth e c w) = Inl err \<longrightarrow>
         err = H3Error 401 ''Unauthorized - No session token''
         \<or> err = H3Error 401 ''Unauthorized - Invalid or expired session''
         \<or> (\<exists>msg. err = Error msg))"
proof -
  have run: "getOptionalAuth e c w =
          (case requireAuth e c w of
             (Inl err, w') \<Rightarrow> (Inr None, w')
           | (Inr v, w') \<Rightarrow> (Inr (Some v), w'))"
    by (simp add: getOptionalAuth_def try_catch_def await_def ret_def
        split: prod.splits sum.splits)
  have errs: "\<forall>err. fst (requireAuth e c w) = Inl err \<longrightarrow>
         err = H3Error 401 ''Unauthorized - No session token''
         \<or> err = H3Error 401 ''Unauthorized - Invalid or expired session''
         \<or> (\<exists>msg. err = Error msg)"
    by (blast dest: requireAuth_errors)
  have rest: "(\<exists>v. fst (getOptionalAuth e c w) = Inr v)
   \<and> snd (getOptionalAuth e c w) = snd (requireAuth e c w)
   \<and> (\<forall>v. fst (requireAuth e c w) = Inr v \<longrightarrow> fst (getOptionalAuth e c w) = Inr (Some v))
   \<and> (fst (getOptionalAuth e c w) = Inr None \<longleftrightarrow> (\<exists>err. fst (requireAuth e c w) = Inl err))"
    unfolding run by (cases "requireAuth e c w"; cases "fst (requireAuth e c w)") auto
  from rest errs show ?thesis by blast
qed

text \<open>Alice's live session is passed on; her expired one gives null.\<close>

theorem getOptionalAuth_never_throws_witness:
  "fst (requireAuth env0 (Some ''t1'') w0) = Inr auth_ok
   \<and> fst (getOptionalAuth env0 (Some ''t1'') w0) = Inr (Some auth_ok)
   \<and> fst (requireAuth env0 (Some ''t2'') w0)
     = Inl (H3Error 401 ''Unauthorized - Invalid or expired session'')
   \<and> fst (getOptionalAuth env0 (Some ''t2'') w0) = Inr None
   \<and> snd (getOptionalAuth env0 (Some ''t2'') w0) = snd (requireAuth env0 (Some ''t2'') w0)"
proof -
  have a: "fst (requireAuth env0 (Some ''t1'') w0) = Inr auth_ok"
    by (simp add: requireAuth_def auth_ok_def alice_safe_def model_defs example_defs)
  have b: "fst (requireAuth env0 (Some ''t2'') w0)
     = Inl (H3Error 401 ''Unauthorized - Invalid or expired session'')"
    by (simp add: requireAuth_def model_defs example_defs)
  from getOptionalAuth_never_throws [of env0 "Some ''t1''" w0]
       getOptionalAuth_never_throws [of env0 "Some ''t2''" w0] a b
  show ?thesis by simp
qed

end
